theory Spec2Isabelle
  imports Main "HOL-Library.Word" "HOL-Library.Sublist" "HOL-Library.Signed_Division"
begin

unbundle bit_operations_syntax

section \<open>Identifier and codec primitives (store/torrent.go)\<close>

text \<open>
  Go's fixed-size byte arrays \<^verbatim>\<open>[20]byte\<close> and \<^verbatim>\<open>[40]byte\<close> are byte lists; the
  length is a side condition of the theorems. A Go string is a sequence of bytes, so it is
  an Isabelle \<^typ>\<open>string\<close>.
\<close>

type_synonym byte = "8 word"
type_synonym InfoHash = "byte list"
type_synonym PeerID = "byte list"
type_synonym PeerHash = "byte list"

text \<open>
  The builtin \<^verbatim>\<open>copy(dst, src)\<close> overwrites the first
  \<^verbatim>\<open>min(len(dst), len(src))\<close> elements of \<^verbatim>\<open>dst\<close>; the result is the new
  content of \<^verbatim>\<open>dst\<close>.
\<close>

definition copy_slice :: "'a list \<Rightarrow> 'a list \<Rightarrow> 'a list" where
  "copy_slice dst src = take (length dst) src @ drop (length src) dst"

text \<open>\<^verbatim>\<open>InfoHash.Bytes\<close> and \<^verbatim>\<open>PeerID.Bytes\<close> return the array as a slice.\<close>

definition Bytes :: "byte list \<Rightarrow> byte list" where
  "Bytes ih = ih"

definition NewPeerHash :: "InfoHash \<Rightarrow> PeerID \<Rightarrow> PeerHash" where
  "NewPeerHash ih pid =
     (let buf0 = replicate 40 (0 :: byte);
          buf1 = copy_slice (take 20 buf0) (Bytes ih) @ drop 20 buf0;
          buf2 = take 20 buf1 @ copy_slice (drop 20 buf1) (Bytes pid)
      in buf2)"

definition PeerHash_InfoHash :: "PeerHash \<Rightarrow> InfoHash" where
  "PeerHash_InfoHash ph = copy_slice (replicate 20 (0 :: byte)) (take 20 ph)"

definition PeerHash_PeerID :: "PeerHash \<Rightarrow> PeerID" where
  "PeerHash_PeerID ph = copy_slice (replicate 20 (0 :: byte)) (drop 20 ph)"

subsection \<open>Base-16 text: the library's \<^verbatim>\<open>encoding/hex\<close> and the \<^verbatim>\<open>%x\<close> verb\<close>

definition hextable :: string where
  "hextable = ''0123456789abcdef''"

text \<open>\<^verbatim>\<open>fmt.Sprintf("%x", bs)\<close>: two lowercase digits per byte, high nibble first.\<close>

fun sprintf_x :: "byte list \<Rightarrow> string" where
  "sprintf_x [] = []"
| "sprintf_x (b # bs) =
     hextable ! unat (drop_bit 4 b) # hextable ! unat (b AND 0x0f) # sprintf_x bs"

definition InfoHash_String :: "InfoHash \<Rightarrow> string" where
  "InfoHash_String ih = sprintf_x ih"

text \<open>\<^verbatim>\<open>fromHexChar\<close>: the value of one digit, upper or lower case.\<close>

definition fromHexChar :: "char \<Rightarrow> byte option" where
  "fromHexChar c =
     (let n = (of_char c :: nat) in
      if of_char (CHR ''0'') \<le> n \<and> n \<le> of_char (CHR ''9'') then Some (of_nat (n - of_char (CHR ''0'')))
      else if of_char (CHR ''a'') \<le> n \<and> n \<le> of_char (CHR ''f'') then Some (of_nat (n - of_char (CHR ''a'') + 10))
      else if of_char (CHR ''A'') \<le> n \<and> n \<le> of_char (CHR ''F'') then Some (of_nat (n - of_char (CHR ''A'') + 10))
      else None)"

datatype hex_error = InvalidByteError char | ErrLength

text \<open>
  \<^verbatim>\<open>hex.DecodeString\<close>: pairs of digits from the left; the first bad digit is reported, and
  an odd length is reported after its last digit has been checked.
\<close>

fun DecodeString :: "string \<Rightarrow> hex_error + byte list" where
  "DecodeString [] = Inr []"
| "DecodeString [p] =
     (case fromHexChar p of None \<Rightarrow> Inl (InvalidByteError p) | Some a \<Rightarrow> Inl ErrLength)"
| "DecodeString (p # q # rest) =
     (case fromHexChar p of
        None \<Rightarrow> Inl (InvalidByteError p)
      | Some a \<Rightarrow>
          (case fromHexChar q of
             None \<Rightarrow> Inl (InvalidByteError q)
           | Some b \<Rightarrow>
               (case DecodeString rest of
                  Inl e \<Rightarrow> Inl e
                | Inr bs \<Rightarrow> Inr ((push_bit 4 a OR b) # bs))))"

datatype ih_error = ErrInvalidInfoHash | HexError hex_error

text \<open>
  \<^verbatim>\<open>InfoHashFromHex\<close> writes through its pointer argument: the model takes the array's
  old content and returns the new one, or the error.
\<close>

definition InfoHashFromHex :: "InfoHash \<Rightarrow> string \<Rightarrow> ih_error + InfoHash" where
  "InfoHashFromHex infoHash h =
     (if length h \<noteq> 40 then Inl ErrInvalidInfoHash
      else case DecodeString h of
             Inl err \<Rightarrow> Inl (HexError err)
           | Inr b \<Rightarrow> Inr (copy_slice infoHash b))"

definition is_hex_digit :: "char \<Rightarrow> bool" where
  "is_hex_digit c = (c \<in> set ''0123456789abcdefABCDEF'')"

section \<open>Peers (peer.go)\<close>

text \<open>
  The \<^verbatim>\<open>Peer\<close> struct. \<^verbatim>\<open>uint64\<close> and \<^verbatim>\<open>uint32\<close> fields are words read unsigned,
  \<^verbatim>\<open>int32\<close> fields are words read with \<^const>\<open>sint\<close>. The \<^verbatim>\<open>float64\<close> fields have an
  abstract type \<^typ>\<open>'f\<close>: the tracker only stores and compares them. The embedded mutex
  and queue structs carry no data of the announce path and are left out.
\<close>

record 'f Peer =
  SpeedUP :: 'f
  SpeedDN :: 'f
  SpeedUPMax :: 'f
  SpeedDNMax :: 'f
  Uploaded :: "64 word"
  Downloaded :: "64 word"
  Corrupt :: "64 word"
  IP :: string
  Port :: "64 word"
  Left :: "64 word"
  Announces :: "64 word"
  TotalTime :: "32 word"
  AnnounceLast :: "32 word"
  AnnounceFirst :: "32 word"
  New :: bool
  PeerID :: string
  Active :: bool
  Username :: string
  UserID :: "64 word"
  TorrentID :: "64 word"
  KeyPeer :: string
  KeyUserActive :: string
  KeyUserIncomplete :: string
  KeyUserComplete :: string
  KeyUserHNR :: string

text \<open>
  The fields of \<^verbatim>\<open>AnnounceRequest\<close> that \<^verbatim>\<open>Update\<close> reads. The struct is declared
  outside the files at hand; the address \<^verbatim>\<open>IPv4\<close> has an abstract type \<^typ>\<open>'ip\<close>, and its
  \<^verbatim>\<open>String\<close> method is a parameter of \<^verbatim>\<open>Update\<close>.
\<close>

record 'ip AnnounceRequest =
  ar_PeerID :: string
  ar_Uploaded :: "64 word"
  ar_Downloaded :: "64 word"
  ar_IPv4 :: 'ip
  ar_Port :: "64 word"
  ar_Corrupt :: "64 word"
  ar_Left :: "64 word"

text \<open>
  The two settings of the global \<^verbatim>\<open>config\<close> that the peer code reads. \<^verbatim>\<open>AnnInterval\<close>
  is given as the 64 bits that \<^verbatim>\<open>uint64(config.AnnInterval)\<close> yields;
  \<^verbatim>\<open>HNRThreshold\<close> is compared with an \<^verbatim>\<open>int32\<close> difference, so it is an \<^verbatim>\<open>int32\<close>.
\<close>

record Config =
  AnnInterval :: "64 word"
  HNRThreshold :: "32 word"

text \<open>
  \<^verbatim>\<open>Peer.Update\<close>. The parameters are what the method takes from outside the struct:
  \<^verbatim>\<open>ip_string\<close> is \<^verbatim>\<open>net.IP.String\<close>, \<^verbatim>\<open>estSpeed\<close> the speed estimator,
  \<^verbatim>\<open>cur_time\<close> the reading of \<^verbatim>\<open>unixtime()\<close> at the top and \<^verbatim>\<open>now\<close> the second
  reading, inside the activity check. The result is the updated peer and the pair
  \<^verbatim>\<open>(ul, dl)\<close>. The subtraction of two \<^verbatim>\<open>uint64\<close> wraps around, and the comparisons
  \<^verbatim>\<open>ul < 0\<close>, \<^verbatim>\<open>dl < 0\<close> are comparisons of \<^verbatim>\<open>uint64\<close> values.
\<close>

definition Update ::
  "('ip \<Rightarrow> string) \<Rightarrow> (32 word \<Rightarrow> 32 word \<Rightarrow> 64 word \<Rightarrow> 'f) \<Rightarrow> Config \<Rightarrow> 32 word \<Rightarrow> 32 word \<Rightarrow>
     ('f::ord) Peer \<Rightarrow> 'ip AnnounceRequest \<Rightarrow> 'f Peer \<times> 64 word \<times> 64 word" where
  "Update ip_string estSpeed config cur_time now peer announce =
     (let ul0 = ar_Uploaded announce - Uploaded peer;
          dl0 = ar_Downloaded announce - Downloaded peer;
          ul = (if ul0 < 0 then 0 else ul0);
          dl = (if dl0 < 0 then 0 else dl0);
          p1 = peer\<lparr>PeerID := ar_PeerID announce,
                    Announces := Announces peer + 1,
                    Uploaded := ar_Uploaded announce,
                    Downloaded := ar_Downloaded announce,
                    IP := ip_string (ar_IPv4 announce),
                    Port := ar_Port announce,
                    Corrupt := ar_Corrupt announce,
                    Left := ar_Left announce,
                    SpeedUP := estSpeed (AnnounceLast peer) cur_time ul,
                    SpeedDN := estSpeed (AnnounceLast peer) cur_time dl\<rparr>;
          p2 = (if SpeedUP p1 > SpeedUPMax p1 then p1\<lparr>SpeedUPMax := SpeedUP p1\<rparr> else p1);
          p3 = (if SpeedDN p2 > SpeedDNMax p2 then p2\<lparr>SpeedDNMax := SpeedDN p2\<rparr> else p2);
          p4 = (if Active p3 \<and> 0 <s AnnounceLast p3
                then (let time_diff = (scast (now - AnnounceLast p3) :: 64 word)
                      in if time_diff < AnnInterval config * 4
                         then p3\<lparr>TotalTime := TotalTime p3 + ucast time_diff\<rparr>
                         else p3)
                else p3)
      in (p4, ul, dl))"

definition IsHNR :: "Config \<Rightarrow> 32 word \<Rightarrow> 'f Peer \<Rightarrow> bool" where
  "IsHNR config now peer = (Left peer > 0 \<and> HNRThreshold config <s AnnounceFirst peer - now)"

definition IsSeeder :: "'f Peer \<Rightarrow> bool" where
  "IsSeeder peer = (Left peer = 0)"

subsection \<open>The compact peer list\<close>

text \<open>
  \<^verbatim>\<open>net.ParseIP(s).To4()\<close> yields either no bytes (\<^verbatim>\<open>nil\<close>) or the four bytes of an
  IPv4 address. A string with neither a dot nor a colon is no address of either family;
  what the library's parsers make of the other strings is the parameter \<^verbatim>\<open>parse\<close>.
\<close>

type_synonym ipv4 = "byte \<times> byte \<times> byte \<times> byte"

definition ParseIP_To4 :: "(string \<Rightarrow> ipv4 option) \<Rightarrow> string \<Rightarrow> ipv4 option" where
  "ParseIP_To4 parse s =
     (if list_ex (\<lambda>c. c = CHR ''.'' \<or> c = CHR '':'') s then parse s else None)"

fun ip_bytes :: "ipv4 option \<Rightarrow> byte list" where
  "ip_bytes None = []"
| "ip_bytes (Some (a, b, c, d)) = [a, b, c, d]"

fun makeCompactPeers :: "(string \<Rightarrow> ipv4 option) \<Rightarrow> 'f Peer list \<Rightarrow> string \<Rightarrow> byte list" where
  "makeCompactPeers to4 [] skip_id = []"
| "makeCompactPeers to4 (peer # peers) skip_id =
     (if Port peer \<le> 0 then makeCompactPeers to4 peers skip_id
      else if PeerID peer = skip_id then makeCompactPeers to4 peers skip_id
      else ip_bytes (to4 (IP peer))
           @ [ucast (drop_bit 8 (Port peer)), ucast (Port peer AND 0xff)]
           @ makeCompactPeers to4 peers skip_id)"

subsection \<open>The whitelist gate\<close>

text \<open>\<^verbatim>\<open>strings.HasPrefix(s, prefix)\<close>.\<close>

definition HasPrefix :: "string \<Rightarrow> string \<Rightarrow> bool" where
  "HasPrefix s pre = (length s \<ge> length pre \<and> take (length pre) s = pre)"

text \<open>
  \<^verbatim>\<open>IsValidClient\<close> scans the global \<^verbatim>\<open>whitelist\<close>, here its first argument, and
  returns at the first prefix that matches.
\<close>

fun IsValidClient :: "string list \<Rightarrow> string \<Rightarrow> bool" where
  "IsValidClient [] peer_id = False"
| "IsValidClient (client_prefix # whitelist) peer_id =
     (if HasPrefix peer_id client_prefix then True else IsValidClient whitelist peer_id)"

record WhiteListClient =
  ClientPrefix :: string
  ClientName :: string

definition Match :: "WhiteListClient \<Rightarrow> string \<Rightarrow> bool" where
  "Match wl client = HasPrefix client (ClientPrefix wl)"

section \<open>The Redis-backed peer list (GetPeers)\<close>

text \<open>
  The revision of the peer code that reads a torrent's peers from Redis has its own, smaller
  \<^verbatim>\<open>Peer\<close> struct; it is the record \<open>StoredPeer\<close> here, its fields prefixed with
  \<open>sp_\<close> to keep them apart from those of the record above.
\<close>

record 'f StoredPeer =
  sp_SpeedUP :: 'f
  sp_SpeedDN :: 'f
  sp_Uploaded :: "64 word"
  sp_Downloaded :: "64 word"
  sp_Corrupt :: "64 word"
  sp_IP :: string
  sp_Port :: "64 word"
  sp_Left :: "64 word"
  sp_Announces :: "64 word"
  sp_TotalTime :: "64 word"
  sp_AnnounceLast :: "32 word"
  sp_AnnounceFirst :: "32 word"
  sp_New :: bool
  sp_Active :: bool
  sp_UserID :: "64 word"

text \<open>The zero value of the struct, which \<^verbatim>\<open>make([]Peer, n)\<close> fills a slice with.\<close>

definition zeroPeer :: "('f::zero) StoredPeer" where
  "zeroPeer =
     \<lparr>sp_SpeedUP = 0, sp_SpeedDN = 0, sp_Uploaded = 0, sp_Downloaded = 0, sp_Corrupt = 0,
      sp_IP = [], sp_Port = 0, sp_Left = 0, sp_Announces = 0, sp_TotalTime = 0,
      sp_AnnounceLast = 0, sp_AnnounceFirst = 0, sp_New = False, sp_Active = False,
      sp_UserID = 0\<rparr>"

text \<open>
  What the Redis client hands to \<^verbatim>\<open>makePeer\<close>: a reply that \<^verbatim>\<open>redis.Values\<close> rejects,
  a reply it turns into \<^verbatim>\<open>nil\<close> without an error, or a list of values, given by what
  \<^verbatim>\<open>redis.ScanStruct\<close> does with them to a struct (\<open>None\<close> when it fails).
\<close>

datatype 'p redis_reply = ReplyError | ReplyNil | ReplyValues "'p \<Rightarrow> 'p option"

datatype peer_error = err_parse_reply | err_cast_reply

text \<open>\<^verbatim>\<open>makePeer\<close>; \<open>unixtime\<close> is the clock's reading during the call.\<close>

definition makePeer ::
  "32 word \<Rightarrow> ('f::zero) StoredPeer redis_reply \<Rightarrow> 'f StoredPeer \<times> peer_error option" where
  "makePeer unixtime redis_reply =
     (let peer = \<lparr>sp_SpeedUP = 0, sp_SpeedDN = 0, sp_Uploaded = 0, sp_Downloaded = 0,
                  sp_Corrupt = 0, sp_IP = ''127.0.0.1'', sp_Port = 0, sp_Left = 0,
                  sp_Announces = 0, sp_TotalTime = 0, sp_AnnounceLast = unixtime,
                  sp_AnnounceFirst = unixtime, sp_New = True, sp_Active = False,
                  sp_UserID = 0\<rparr>
      in case redis_reply of
           ReplyError \<Rightarrow> (peer, Some err_parse_reply)
         | ReplyNil \<Rightarrow> (peer, None)
         | ReplyValues scan \<Rightarrow>
             (case scan peer of
                None \<Rightarrow> (peer, Some err_cast_reply)
              | Some scanned \<Rightarrow>
                  (scanned\<lparr>sp_Announces := sp_Announces scanned + 1, sp_New := False\<rparr>, None)))"

text \<open>
  The outcome of \<^verbatim>\<open>r.Do("SMEMBERS", ...)\<close> followed by \<^verbatim>\<open>redis.Strings\<close>, and of one
  \<^verbatim>\<open>r.Receive()\<close>.
\<close>

datatype smembers_reply = DoError | DoNil | NotStrings | Strings "string list"

datatype 'a received = ReceiveError | Received 'a

datatype panic = SliceBoundsOutOfRange

text \<open>The body of the receiving loop: the \<open>i\<close>-th call of \<^verbatim>\<open>r.Receive()\<close>.\<close>

definition receive_step ::
  "(nat \<Rightarrow> ('f::zero) StoredPeer redis_reply received) \<Rightarrow> 32 word \<Rightarrow> nat \<Rightarrow>
     'f StoredPeer list \<Rightarrow> 'f StoredPeer list" where
  "receive_step receive unixtime i peers =
     (case receive i of
        ReceiveError \<Rightarrow> peers
      | Received peer_reply \<Rightarrow>
          (case makePeer unixtime peer_reply of
             (peer, Some err) \<Rightarrow> peers
           | (peer, None) \<Rightarrow> peers @ [peer]))"

function receive_loop ::
  "(nat \<Rightarrow> ('f::zero) StoredPeer redis_reply received) \<Rightarrow> 32 word \<Rightarrow> nat \<Rightarrow> nat \<Rightarrow>
     'f StoredPeer list \<Rightarrow> 'f StoredPeer list" where
  "receive_loop receive unixtime i known_peers peers =
     (if i \<le> known_peers
      then receive_loop receive unixtime (i + 1) known_peers
             (receive_step receive unixtime i peers)
      else peers)"
  by pat_completeness auto
termination
  by (relation "measure (\<lambda>(receive, unixtime, i, known_peers, peers). Suc known_peers - i)") auto

declare receive_loop.simps [simp del]

text \<open>
  \<^verbatim>\<open>GetPeers\<close>. \<open>max_peers\<close> is a Go \<^verbatim>\<open>int\<close>; slicing \<^verbatim>\<open>peer_ids[0:known_peers]\<close>
  with a negative bound panics. \<^verbatim>\<open>return nil\<close> is the empty list.
\<close>

definition GetPeers ::
  "smembers_reply \<Rightarrow> (nat \<Rightarrow> ('f::zero) StoredPeer redis_reply received) \<Rightarrow> 32 word \<Rightarrow> int \<Rightarrow>
     panic + 'f StoredPeer list" where
  "GetPeers peers_reply receive unixtime max_peers =
     (case peers_reply of
        DoError \<Rightarrow> Inr []
      | DoNil \<Rightarrow> Inr []
      | NotStrings \<Rightarrow> Inr []
      | Strings peer_ids \<Rightarrow>
          (let known_peers = (if int (length peer_ids) > max_peers then max_peers
                              else int (length peer_ids))
           in if known_peers < 0 then Inl SliceBoundsOutOfRange
              else Inr (receive_loop receive unixtime 1 (nat known_peers)
                          (replicate (nat known_peers) zeroPeer))))"

section \<open>Metrics counters (metrics/metrics.go)\<close>

text \<open>
  The package's global counters, as one state. \<^verbatim>\<open>int64\<close> values are 64-bit words. The
  atomic operations are run one after the other.
\<close>

record Metrics =
  TorrentsTotalCached :: "64 word"
  PeersTotalCached :: "64 word"
  UsersTotalCached :: "64 word"
  AnnounceTotal :: "64 word"
  AnnounceStatusOK :: "64 word"
  AnnounceStatusUnauthorized :: "64 word"
  AnnounceStatusInvalidInfoHash :: "64 word"
  AnnounceStatusMalformed :: "64 word"
  AnnounceExecTimesNs :: "64 word list"

text \<open>
  The snapshot \<^verbatim>\<open>RuntimeMetrics\<close>: the tracker's counters, and the readings of the Go
  runtime (memory, garbage collector, goroutines) as one field of an abstract type.
\<close>

record 'r RuntimeMetrics =
  m_TorrentsTotalCached :: "64 word"
  m_UsersTotalCached :: "64 word"
  m_PeersTotalCached :: "64 word"
  m_AnnounceTotal :: "64 word"
  m_AnnounceStatusOK :: "64 word"
  m_AnnounceStatusUnauthorized :: "64 word"
  m_AnnounceStatusInvalidInfoHash :: "64 word"
  m_AnnounceStatusMalformed :: "64 word"
  m_AnnounceExecTimesNsAvg :: "64 word"
  m_runtime :: 'r

definition AddAnnounceTime :: "64 word \<Rightarrow> Metrics \<Rightarrow> Metrics" where
  "AddAnnounceTime t st = st\<lparr>AnnounceExecTimesNs := AnnounceExecTimesNs st @ [t]\<rparr>"

text \<open>
  \<^verbatim>\<open>avgExecTime\<close>: the sum wraps around, the division of two \<^verbatim>\<open>int64\<close> truncates
  towards zero.
\<close>

definition avgExecTime :: "Metrics \<Rightarrow> 64 word \<times> Metrics" where
  "avgExecTime st =
     (let t = foldl (+) 0 (AnnounceExecTimesNs st);
          s = (of_nat (length (AnnounceExecTimesNs st)) :: 64 word)
      in if 0 <s s
         then (word_of_int (sint t sdiv sint s), st\<lparr>AnnounceExecTimesNs := []\<rparr>)
         else (0, st))"

text \<open>
  \<^verbatim>\<open>Get\<close>: \<^verbatim>\<open>atomic.LoadInt64\<close> reads a counter, \<^verbatim>\<open>atomic.SwapInt64(&c, 0)\<close> reads it
  and stores zero.
\<close>

definition Get :: "'r \<Rightarrow> Metrics \<Rightarrow> 'r RuntimeMetrics \<times> Metrics" where
  "Get runtime st =
     (let st1 = st\<lparr>AnnounceTotal := 0\<rparr>;
          st2 = st1\<lparr>AnnounceStatusOK := 0\<rparr>;
          st3 = st2\<lparr>AnnounceStatusUnauthorized := 0\<rparr>;
          st4 = st3\<lparr>AnnounceStatusInvalidInfoHash := 0\<rparr>;
          st5 = st4\<lparr>AnnounceStatusMalformed := 0\<rparr>;
          (avg, st6) = avgExecTime st5
      in (\<lparr>m_TorrentsTotalCached = TorrentsTotalCached st,
           m_UsersTotalCached = UsersTotalCached st,
           m_PeersTotalCached = PeersTotalCached st,
           m_AnnounceTotal = AnnounceTotal st,
           m_AnnounceStatusOK = AnnounceStatusOK st1,
           m_AnnounceStatusUnauthorized = AnnounceStatusUnauthorized st2,
           m_AnnounceStatusInvalidInfoHash = AnnounceStatusInvalidInfoHash st3,
           m_AnnounceStatusMalformed = AnnounceStatusMalformed st4,
           m_AnnounceExecTimesNsAvg = avg,
           m_runtime = runtime\<rparr>, st6))"

section \<open>Sample data\<close>

text \<open>
  Concrete inputs at which the theorems below are evaluated: a configuration with an
  announce interval of 1800 seconds and a hit-and-run threshold of one day, an active
  leecher that first and last announced at time 1000, and announces of that client. Speeds
  are plain integers here, addresses are their text form, and the speed estimator is the
  constant zero.
\<close>

definition sample_config :: Config where
  "sample_config = \<lparr>AnnInterval = 1800, HNRThreshold = 86400\<rparr>"

definition sample_peer :: "int Peer" where
  "sample_peer =
     \<lparr>SpeedUP = 0, SpeedDN = 0, SpeedUPMax = 0, SpeedDNMax = 0,
      Uploaded = 100, Downloaded = 200, Corrupt = 0, IP = ''10.0.0.5'', Port = 6881,
      Left = 1000, Announces = 3, TotalTime = 600, AnnounceLast = 1000,
      AnnounceFirst = 1000, New = False, PeerID = ''-UT3550-abcdefghijkl'', Active = True,
      Username = ''alice'', UserID = 7, TorrentID = 42, KeyPeer = ''t:t:42:-UT3550-abcdefghijkl'',
      KeyUserActive = ''t:u:7:active'', KeyUserIncomplete = ''t:u:7:incomplete'',
      KeyUserComplete = ''t:u:7:complete'', KeyUserHNR = ''t:u:7:hnr''\<rparr>"

text \<open>An announce whose counters went on from the stored ones.\<close>

definition sample_announce :: "string AnnounceRequest" where
  "sample_announce =
     \<lparr>ar_PeerID = ''-UT3550-abcdefghijkl'', ar_Uploaded = 150, ar_Downloaded = 700,
      ar_IPv4 = ''10.0.0.5'', ar_Port = 6881, ar_Corrupt = 0, ar_Left = 500\<rparr>"

text \<open>An announce of a client that has restarted its counters: both are below the stored ones.\<close>

definition reset_announce :: "string AnnounceRequest" where
  "reset_announce =
     \<lparr>ar_PeerID = ''-UT3550-abcdefghijkl'', ar_Uploaded = 50, ar_Downloaded = 0,
      ar_IPv4 = ''10.0.0.5'', ar_Port = 6881, ar_Corrupt = 0, ar_Left = 1000\<rparr>"

definition sample_estSpeed :: "32 word \<Rightarrow> 32 word \<Rightarrow> 64 word \<Rightarrow> int" where
  "sample_estSpeed last_time cur_time delta = 0"

definition sample_ip_string :: "string \<Rightarrow> string" where
  "sample_ip_string ip = ip"

text \<open>A peer whose stored address is the text of a missing address.\<close>

definition nil_ip_peer :: "int Peer" where
  "nil_ip_peer = sample_peer\<lparr>IP := ''<nil>''\<rparr>"

text \<open>The counters after seven announces, four of them successful.\<close>

definition sample_metrics :: Metrics where
  "sample_metrics =
     \<lparr>TorrentsTotalCached = 1, PeersTotalCached = 2, UsersTotalCached = 3,
      AnnounceTotal = 7, AnnounceStatusOK = 4, AnnounceStatusUnauthorized = 1,
      AnnounceStatusInvalidInfoHash = 1, AnnounceStatusMalformed = 1,
      AnnounceExecTimesNs = [10, 20, 30, 40]\<rparr>"

text \<open>
  A Redis reply for one stored peer: the hash holds an address, a port and the bytes left,
  which \<^verbatim>\<open>redis.ScanStruct\<close> writes into the struct.
\<close>

definition sample_scan :: "int StoredPeer \<Rightarrow> int StoredPeer option" where
  "sample_scan peer = Some (peer\<lparr>sp_IP := ''10.0.0.5'', sp_Port := 6881, sp_Left := 1000\<rparr>)"

definition sample_receive :: "nat \<Rightarrow> int StoredPeer redis_reply received" where
  "sample_receive i = Received (ReplyValues sample_scan)"

section \<open>Properties of the identifier primitives\<close>

lemma copy_slice_same_length: "length dst = length src \<Longrightarrow> copy_slice dst src = src"
  by (simp add: copy_slice_def)

lemma NewPeerHash_append:
  "length ih = 20 \<Longrightarrow> length pid = 20 \<Longrightarrow> NewPeerHash ih pid = ih @ pid"
  by (simp add: NewPeerHash_def Bytes_def copy_slice_def)

text \<open>
  Claim C10. For a 20-byte info hash \<open>ih\<close> and a 20-byte peer id \<open>pid\<close>, the peer hash
  \<open>NewPeerHash ih pid\<close> has 40 bytes, its \<open>InfoHash\<close> projection is \<open>ih\<close> and its
  \<open>PeerID\<close> projection is \<open>pid\<close>.
\<close>

theorem NewPeerHash_projections:
  assumes "length ih = 20" and "length pid = 20"
  shows "length (NewPeerHash ih pid) = 40 \<and>
         PeerHash_InfoHash (NewPeerHash ih pid) = ih \<and>
         PeerHash_PeerID (NewPeerHash ih pid) = pid"
  using assms
  by (simp add: NewPeerHash_append PeerHash_InfoHash_def PeerHash_PeerID_def
      copy_slice_same_length)

theorem NewPeerHash_projections_witness:
  "length [1, 2, 3, 4, 5, 6, 7, 8, 9, 10, 11, 12, 13, 14, 15, 16, 17, 18, 19, 20 :: byte] = 20 \<and>
   length [33, 34, 35, 36, 37, 38, 39, 40, 41, 42, 43, 44, 45, 46, 47, 48, 49, 50, 51, 52 :: byte]
     = 20 \<and>
   PeerHash_InfoHash
     (NewPeerHash [1, 2, 3, 4, 5, 6, 7, 8, 9, 10, 11, 12, 13, 14, 15, 16, 17, 18, 19, 20]
        [33, 34, 35, 36, 37, 38, 39, 40, 41, 42, 43, 44, 45, 46, 47, 48, 49, 50, 51, 52])
     = [1, 2, 3, 4, 5, 6, 7, 8, 9, 10, 11, 12, 13, 14, 15, 16, 17, 18, 19, 20] \<and>
   PeerHash_PeerID
     (NewPeerHash [1, 2, 3, 4, 5, 6, 7, 8, 9, 10, 11, 12, 13, 14, 15, 16, 17, 18, 19, 20]
        [33, 34, 35, 36, 37, 38, 39, 40, 41, 42, 43, 44, 45, 46, 47, 48, 49, 50, 51, 52])
     = [33, 34, 35, 36, 37, 38, 39, 40, 41, 42, 43, 44, 45, 46, 47, 48, 49, 50, 51, 52]"
  using NewPeerHash_projections
    [of "[1, 2, 3, 4, 5, 6, 7, 8, 9, 10, 11, 12, 13, 14, 15, 16, 17, 18, 19, 20]"
        "[33, 34, 35, 36, 37, 38, 39, 40, 41, 42, 43, 44, 45, 46, 47, 48, 49, 50, 51, 52]"]
  by simp

subsection \<open>Base-16 round trip\<close>

lemma fromHexChar_hextable: "n < 16 \<Longrightarrow> fromHexChar (hextable ! n) = Some (of_nat n)"
proof -
  assume "n < 16"
  then have "n \<in> {0, 1, 2, 3, 4, 5, 6, 7, 8, 9, 10, 11, 12, 13, 14, 15}"
    by (simp; arith)
  then show ?thesis
    by (auto simp: fromHexChar_def hextable_def)
qed

lemma high_nibble_less: "unat (drop_bit 4 (b :: byte)) < 16"
proof -
  have "unat b < 256"
    using unsigned_less [of b, where ?'a = nat] by simp
  then show ?thesis
    by (simp add: drop_bit_eq_div unat_div)
qed

lemma low_nibble_less: "unat ((b :: byte) AND 0x0f) < 16"
proof -
  have "unat (b AND 15) \<le> unat (15 :: byte)"
    by (rule word_and_le1 [THEN word_le_nat_alt [THEN iffD1]])
  then show ?thesis by simp
qed

lemma nibbles_join: "push_bit 4 (drop_bit 4 (b :: byte)) OR (b AND 0x0f) = b"
proof -
  have m: "(0x0f :: byte) = mask 4"
    by (simp add: mask_eq_exp_minus_1)
  show ?thesis
    unfolding m by (rule bit_word_eqI) (auto simp: bit_simps)
qed

lemma DecodeString_sprintf_x: "DecodeString (sprintf_x bs) = Inr bs"
proof (induction bs)
  case Nil
  show ?case by simp
next
  case (Cons b bs)
  have hi: "fromHexChar (hextable ! unat (drop_bit 4 b)) = Some (drop_bit 4 b)"
    using fromHexChar_hextable [OF high_nibble_less [of b]] by simp
  have lo: "fromHexChar (hextable ! unat (b AND 0x0f)) = Some (b AND 0x0f)"
    using fromHexChar_hextable [OF low_nibble_less [of b]] by simp
  show ?case
    using Cons.IH hi lo nibbles_join [of b] by simp
qed

lemma length_sprintf_x: "length (sprintf_x bs) = 2 * length bs"
  by (induction bs) simp_all

lemma is_hex_digit_fromHexChar: "is_hex_digit c \<Longrightarrow> \<exists>a. fromHexChar c = Some a"
  by (auto simp: is_hex_digit_def fromHexChar_def)

lemma DecodeString_hex_digits:
  "even (length h) \<Longrightarrow> list_all is_hex_digit h \<Longrightarrow>
     \<exists>b. DecodeString h = Inr b \<and> 2 * length b = length h"
proof (induction h rule: DecodeString.induct)
  case 1
  show ?case by simp
next
  case (2 p)
  then show ?case by simp
next
  case (3 p q rest)
  from 3 obtain a b where ab: "fromHexChar p = Some a" "fromHexChar q = Some b"
    using is_hex_digit_fromHexChar by fastforce
  from 3 ab obtain bs where "DecodeString rest = Inr bs" "2 * length bs = length rest"
    by auto
  with ab show ?case by simp
qed

text \<open>
  Claim C9. Let the target array hold 20 bytes. For every string \<open>h\<close> of 40 hexadecimal
  digits (upper or lower case), \<open>InfoHashFromHex\<close> succeeds and yields 20 bytes; and for
  every 20-byte info hash \<open>ih\<close>, \<open>InfoHashFromHex\<close> applied to the lowercase base-16
  string of \<open>ih\<close> yields exactly \<open>ih\<close>.
\<close>

theorem InfoHashFromHex_String_identity:
  assumes "length ih0 = 20"
  shows "(length h = 40 \<and> list_all is_hex_digit h \<longrightarrow>
            (\<exists>ih'. InfoHashFromHex ih0 h = Inr ih' \<and> length ih' = 20)) \<and>
         (length ih = 20 \<longrightarrow> InfoHashFromHex ih0 (InfoHash_String ih) = Inr ih)"
proof (intro conjI impI)
  assume h: "length h = 40 \<and> list_all is_hex_digit h"
  then obtain b where b: "DecodeString h = Inr b" "2 * length b = length h"
    using DecodeString_hex_digits [of h] by auto
  with h have "length b = 20" by simp
  with h b assms show "\<exists>ih'. InfoHashFromHex ih0 h = Inr ih' \<and> length ih' = 20"
    by (simp add: InfoHashFromHex_def copy_slice_def)
next
  assume "length ih = 20"
  with assms show "InfoHashFromHex ih0 (InfoHash_String ih) = Inr ih"
    by (simp add: InfoHashFromHex_def InfoHash_String_def length_sprintf_x
        DecodeString_sprintf_x copy_slice_def)
qed

theorem InfoHashFromHex_String_identity_witness:
  "length (replicate 20 (0 :: byte)) = 20 \<and>
   length ''000102030405060708090a0B0c0D0e0Fa1B2c3D4'' = 40 \<and>
   list_all is_hex_digit ''000102030405060708090a0B0c0D0e0Fa1B2c3D4'' \<and>
   (\<exists>ih'. InfoHashFromHex (replicate 20 0) ''000102030405060708090a0B0c0D0e0Fa1B2c3D4'' = Inr ih'
      \<and> length ih' = 20) \<and>
   length [1, 2, 3, 4, 5, 6, 7, 8, 9, 10, 11, 12, 13, 14, 15, 16, 17, 18, 19, 255 :: byte] = 20 \<and>
   InfoHashFromHex (replicate 20 0)
     (InfoHash_String [1, 2, 3, 4, 5, 6, 7, 8, 9, 10, 11, 12, 13, 14, 15, 16, 17, 18, 19, 255])
     = Inr [1, 2, 3, 4, 5, 6, 7, 8, 9, 10, 11, 12, 13, 14, 15, 16, 17, 18, 19, 255]"
  using InfoHashFromHex_String_identity [of "replicate 20 0"
      "''000102030405060708090a0B0c0D0e0Fa1B2c3D4''"
      "[1, 2, 3, 4, 5, 6, 7, 8, 9, 10, 11, 12, 13, 14, 15, 16, 17, 18, 19, 255]"]
  by (simp add: is_hex_digit_def)

section \<open>Properties of the whitelist gate\<close>

lemma HasPrefix_iff_prefix: "HasPrefix s pre \<longleftrightarrow> prefix pre s"
proof
  assume "HasPrefix s pre"
  then have "s = pre @ drop (length pre) s"
    by (metis HasPrefix_def append_take_drop_id)
  then show "prefix pre s"
    by (metis prefixI)
next
  assume "prefix pre s"
  then show "HasPrefix s pre"
    by (auto simp: HasPrefix_def prefix_def)
qed

lemma IsValidClient_iff_list_ex:
  "IsValidClient whitelist peer_id \<longleftrightarrow> (\<exists>client_prefix \<in> set whitelist. HasPrefix peer_id client_prefix)"
  by (induction whitelist) auto

text \<open>
  Claim C8. The whitelist gate accepts a peer id if and only if some prefix of the
  whitelist is a string prefix of the peer id; with an empty whitelist every peer id is
  rejected; and a single whitelist entry matches a client exactly when its prefix is a
  string prefix of the client's peer id.
\<close>

theorem IsValidClient_iff_some_prefix:
  "(IsValidClient whitelist peer_id \<longleftrightarrow>
      (\<exists>client_prefix \<in> set whitelist. prefix client_prefix peer_id)) \<and>
   \<not> IsValidClient [] peer_id \<and>
   (Match wl peer_id \<longleftrightarrow> prefix (ClientPrefix wl) peer_id)"
  by (simp add: IsValidClient_iff_list_ex HasPrefix_iff_prefix Match_def)

theorem IsValidClient_iff_some_prefix_witness:
  "IsValidClient [''-AZ'', ''-UT3550-''] ''-UT3550-abcdefghijkl'' \<and>
   (\<exists>client_prefix \<in> set [''-AZ'', ''-UT3550-'']. prefix client_prefix ''-UT3550-abcdefghijkl'') \<and>
   \<not> IsValidClient [''-AZ'', ''-UT3550-''] ''-TR2940-abcdefghijkl'' \<and>
   \<not> (\<exists>client_prefix \<in> set [''-AZ'', ''-UT3550-'']. prefix client_prefix ''-TR2940-abcdefghijkl'')"
  using IsValidClient_iff_some_prefix [of "[''-AZ'', ''-UT3550-'']" "''-UT3550-abcdefghijkl''"]
    IsValidClient_iff_some_prefix [of "[''-AZ'', ''-UT3550-'']" "''-TR2940-abcdefghijkl''"]
  by (simp add: HasPrefix_def)

section \<open>Properties of Peer.Update\<close>

lemma Update_deltas:
  "snd (Update ip_string estSpeed config cur_time now peer announce) =
     (ar_Uploaded announce - Uploaded peer, ar_Downloaded announce - Downloaded peer)"
  by (simp add: Update_def Let_def)

lemma Update_counters:
  "Uploaded (fst (Update ip_string estSpeed config cur_time now peer announce))
     = ar_Uploaded announce"
  "Downloaded (fst (Update ip_string estSpeed config cur_time now peer announce))
     = ar_Downloaded announce"
  by (simp_all add: Update_def Let_def)

text \<open>
  Where the client's counter has not gone back, the returned delta is the difference of the
  two counters over the integers.
\<close>

lemma Update_delta_no_reset:
  assumes "Uploaded peer \<le> ar_Uploaded announce"
  shows "uint (fst (snd (Update ip_string estSpeed config cur_time now peer announce)))
           = max 0 (uint (ar_Uploaded announce) - uint (Uploaded peer))"
  using assms by (simp add: Update_deltas uint_sub_if' word_le_def)

text \<open>
  Claim C1, at a counter reset. The stored upload counter is 100 and the client reports 50.
  Over the integers the clamped delta \<open>max 0 (50 - 100)\<close> is zero, as is the clamped
  download delta \<open>max 0 (0 - 200)\<close>; \<open>Update\<close> returns the wrapped differences
  \<open>2^64 - 50\<close> and \<open>2^64 - 200\<close> instead, since its test \<open>ul < 0\<close> compares
  unsigned values and never holds.
\<close>

theorem Update_counter_reset_delta:
  "snd (Update sample_ip_string sample_estSpeed sample_config 2800 2800 sample_peer reset_announce)
     = (18446744073709551566, 18446744073709551416) \<and>
   max 0 (uint (ar_Uploaded reset_announce) - uint (Uploaded sample_peer)) = 0 \<and>
   max 0 (uint (ar_Downloaded reset_announce) - uint (Downloaded sample_peer)) = 0"
  by (simp add: Update_deltas sample_peer_def reset_announce_def)

text \<open>
  Claim C3 as stated fails: after the announce of a client that has restarted its counters,
  the stored upload and download counters are below their values before the update.
\<close>

theorem Update_stored_counters_decrease:
  "Uploaded (fst (Update sample_ip_string sample_estSpeed sample_config 2800 2800
                    sample_peer reset_announce)) < Uploaded sample_peer \<and>
   Downloaded (fst (Update sample_ip_string sample_estSpeed sample_config 2800 2800
                      sample_peer reset_announce)) < Downloaded sample_peer"
  by (simp add: Update_counters sample_peer_def reset_announce_def)

text \<open>
  Claim C3, amended. \<open>Update\<close> stores the totals that the client reports: after the
  update the stored upload counter equals the announce's \<open>uploaded\<close> and the stored
  download counter equals the announce's \<open>downloaded\<close>. So a stored counter is greater
  than or equal to its value before the update whenever the announce reports a counter
  that is not below the stored one.
\<close>

theorem Update_stores_reported_counters:
  "Uploaded (fst (Update ip_string estSpeed config cur_time now peer announce))
     = ar_Uploaded announce \<and>
   Downloaded (fst (Update ip_string estSpeed config cur_time now peer announce))
     = ar_Downloaded announce \<and>
   (Uploaded peer \<le> ar_Uploaded announce \<longrightarrow>
      Uploaded peer \<le> Uploaded (fst (Update ip_string estSpeed config cur_time now peer announce))) \<and>
   (Downloaded peer \<le> ar_Downloaded announce \<longrightarrow>
      Downloaded peer \<le> Downloaded (fst (Update ip_string estSpeed config cur_time now peer announce)))"
  by (simp add: Update_counters)

theorem Update_stores_reported_counters_witness:
  "Uploaded sample_peer \<le> ar_Uploaded sample_announce \<and>
   Downloaded sample_peer \<le> ar_Downloaded sample_announce \<and>
   Uploaded (fst (Update sample_ip_string sample_estSpeed sample_config 2800 2800
                    sample_peer sample_announce)) = 150 \<and>
   Downloaded (fst (Update sample_ip_string sample_estSpeed sample_config 2800 2800
                      sample_peer sample_announce)) = 700 \<and>
   Uploaded sample_peer \<le>
     Uploaded (fst (Update sample_ip_string sample_estSpeed sample_config 2800 2800
                      sample_peer sample_announce)) \<and>
   Downloaded sample_peer \<le>
     Downloaded (fst (Update sample_ip_string sample_estSpeed sample_config 2800 2800
                        sample_peer sample_announce))"
  using Update_stores_reported_counters [of sample_ip_string sample_estSpeed sample_config
      2800 2800 sample_peer sample_announce]
  by (simp add: sample_peer_def sample_announce_def)

subsection \<open>The time in the swarm\<close>

lemma Update_TotalTime:
  "TotalTime (fst (Update ip_string estSpeed config cur_time now peer announce)) =
     (if Active peer \<and> 0 <s AnnounceLast peer \<and>
         (scast (now - AnnounceLast peer) :: 64 word) < AnnInterval config * 4
      then TotalTime peer + ucast (scast (now - AnnounceLast peer) :: 64 word)
      else TotalTime peer)"
  by (auto simp: Update_def Let_def)

lemma ucast_scast_32_64: "(ucast (scast (d :: 32 word) :: 64 word) :: 32 word) = d"
  by (rule bit_word_eqI) (auto simp: bit_simps)

lemma sint_diff_32:
  fixes a b :: "32 word"
  assumes "- (2 ^ 31) \<le> sint a - sint b" and "sint a - sint b < 2 ^ 31"
  shows "sint (a - b) = sint a - sint b"
  using assms by (simp add: sint_word_ariths signed_take_bit_int_eq_self)

text \<open>The conversion \<^verbatim>\<open>uint64(x)\<close> of an \<^verbatim>\<open>int32\<close> extends the sign.\<close>

lemma uint_scast_32_64:
  "uint (scast (d :: 32 word) :: 64 word) = (if 0 \<le> sint d then sint d else 2 ^ 64 + sint d)"
proof -
  have r: "- (2 ^ 31) \<le> sint d" "sint d < 2 ^ 31"
    using sint_ge [of d] sint_lt [of d] by simp_all
  have "uint (word_of_int (sint d) :: 64 word) = take_bit 64 (sint d)"
    using uint_word_of_int_eq [of "sint d", where ?'a = 64] by simp
  then have "uint (scast d :: 64 word) = sint d mod 2 ^ 64"
    by (simp add: take_bit_eq_mod)
  also have "\<dots> = (if 0 \<le> sint d then sint d else 2 ^ 64 + sint d)"
  proof (cases "0 \<le> sint d")
    case True
    with r show ?thesis by simp
  next
    case False
    with r have "(2 ^ 64 + sint d) mod 2 ^ 64 = 2 ^ 64 + sint d"
      by (intro mod_pos_pos_trivial) simp_all
    then show ?thesis using False by simp
  qed
  finally show ?thesis .
qed

text \<open>
  Claim C7 as stated fails at the boundary: the peer last announced at time 1000, the
  clock reads 8200 and the announce interval is 1800, so the time since the last announce
  is 7200, which is positive and not greater than four announce intervals; the code leaves
  the total time at 600 instead of adding 7200.
\<close>

theorem Update_TotalTime_boundary:
  "Active sample_peer \<and> 0 <s AnnounceLast sample_peer \<and>
   sint (8200 :: 32 word) - sint (AnnounceLast sample_peer) = 7200 \<and>
   4 * uint (AnnInterval sample_config) = 7200 \<and>
   TotalTime (fst (Update sample_ip_string sample_estSpeed sample_config 8200 8200
                     sample_peer sample_announce)) = 600 \<and>
   TotalTime sample_peer + 7200 = 7800"
  by (simp add: Update_TotalTime sample_peer_def sample_config_def word_sless_alt)

text \<open>
  Claim C7, amended. Let the peer be active with a positive previous announce timestamp,
  let \<open>dt\<close> be the current time minus that timestamp, let the \<^verbatim>\<open>int32\<close> subtraction
  not overflow (\<open>dt\<close> is at least \<open>-2^31\<close>) and let four announce intervals be at most
  \<open>2^63\<close>. If \<open>dt \<le> 0\<close> or \<open>dt\<close> is greater than or equal to four announce intervals,
  the total time is unchanged; otherwise it increases by \<open>dt\<close> in 32-bit unsigned
  arithmetic, which is an increase by exactly \<open>dt\<close> whenever the sum stays below \<open>2^32\<close>.
\<close>

theorem Update_TotalTime_strict:
  fixes peer :: "('f::ord) Peer" and announce :: "'ip AnnounceRequest"
    and ip_string :: "'ip \<Rightarrow> string" and estSpeed :: "32 word \<Rightarrow> 32 word \<Rightarrow> 64 word \<Rightarrow> 'f"
    and config :: Config and cur_time now :: "32 word"
  assumes active: "Active peer"
    and last: "0 <s AnnounceLast peer"
    and no_wrap: "- (2 ^ 31) \<le> sint now - sint (AnnounceLast peer)"
    and interval: "4 * uint (AnnInterval config) \<le> 2 ^ 63"
  defines "dt \<equiv> sint now - sint (AnnounceLast peer)"
    and "peer' \<equiv> fst (Update ip_string estSpeed config cur_time now peer announce)"
  shows "TotalTime peer' =
           (if dt \<le> 0 \<or> 4 * uint (AnnInterval config) \<le> dt then TotalTime peer
            else TotalTime peer + word_of_int dt) \<and>
         (0 < dt \<and> dt < 4 * uint (AnnInterval config) \<and> uint (TotalTime peer) + dt < 2 ^ 32
            \<longrightarrow> uint (TotalTime peer') = uint (TotalTime peer) + dt)"
proof -
  let ?d = "now - AnnounceLast peer"
  have last_pos: "0 < sint (AnnounceLast peer)"
    using last by (simp add: word_sless_alt)
  have "sint now < 2 ^ 31"
    using sint_lt [of now] by simp
  with last_pos have upper: "dt < 2 ^ 31"
    by (simp add: dt_def)
  have sd: "sint ?d = dt"
    unfolding dt_def using no_wrap upper [unfolded dt_def] by (rule sint_diff_32)
  have d_eq: "?d = word_of_int dt"
    using sd by (metis of_int_sint scast_id)
  have mul: "uint (AnnInterval config * 4) = 4 * uint (AnnInterval config)"
    using interval by (simp add: uint_word_ariths)
  have cond: "(scast ?d :: 64 word) < AnnInterval config * 4 \<longleftrightarrow>
                0 \<le> dt \<and> dt < 4 * uint (AnnInterval config)"
    using interval no_wrap [folded dt_def]
    by (auto simp: word_less_def uint_scast_32_64 mul sd)
  have tt: "TotalTime peer' =
              (if 0 \<le> dt \<and> dt < 4 * uint (AnnInterval config)
               then TotalTime peer + word_of_int dt else TotalTime peer)"
    unfolding peer'_def Update_TotalTime
    using active last cond by (simp add: ucast_scast_32_64 d_eq [symmetric])
  have first: "TotalTime peer' =
           (if dt \<le> 0 \<or> 4 * uint (AnnInterval config) \<le> dt then TotalTime peer
            else TotalTime peer + word_of_int dt)"
    unfolding tt by (cases "dt = 0") auto
  have second: "uint (TotalTime peer') = uint (TotalTime peer) + dt"
    if "0 < dt" "dt < 4 * uint (AnnInterval config)" "uint (TotalTime peer) + dt < 2 ^ 32"
  proof -
    have "uint (word_of_int dt :: 32 word) = dt"
      using that upper by (simp add: uint_word_of_int_eq take_bit_eq_mod)
    with that show ?thesis
      unfolding tt by (simp add: uint_plus_if')
  qed
  from first second show ?thesis by blast
qed

theorem Update_TotalTime_strict_witness:
  "Active sample_peer \<and> 0 <s AnnounceLast sample_peer \<and>
   - (2 ^ 31) \<le> sint (2800 :: 32 word) - sint (AnnounceLast sample_peer) \<and>
   4 * uint (AnnInterval sample_config) \<le> 2 ^ 63 \<and>
   sint (2800 :: 32 word) - sint (AnnounceLast sample_peer) = 1800 \<and>
   TotalTime (fst (Update sample_ip_string sample_estSpeed sample_config 2800 2800
                     sample_peer sample_announce)) = 2400 \<and>
   uint (TotalTime (fst (Update sample_ip_string sample_estSpeed sample_config 2800 2800
                           sample_peer sample_announce))) = uint (TotalTime sample_peer) + 1800"
  using Update_TotalTime_strict [of sample_peer 2800 sample_config sample_ip_string
      sample_estSpeed 2800 sample_announce]
  by (simp add: sample_peer_def sample_config_def word_sless_alt)

section \<open>Properties of IsHNR\<close>

lemma IsHNR_seeder: "IsSeeder peer \<Longrightarrow> \<not> IsHNR config now peer"
  by (simp add: IsHNR_def IsSeeder_def)

text \<open>
  What the code computes: a leecher is flagged when the first-announce timestamp minus the
  current time, as a wrapping \<^verbatim>\<open>int32\<close> difference, exceeds the threshold.
\<close>

lemma IsHNR_iff:
  "IsHNR config now peer \<longleftrightarrow>
     Left peer \<noteq> 0 \<and> sint (HNRThreshold config) < sint (AnnounceFirst peer - now)"
  by (simp add: IsHNR_def word_sless_alt word_greater_zero_iff)

text \<open>
  Claim C4, at a leecher long in the swarm. The peer has 1000 bytes left and first announced
  at time 1000; at time 2000000 it has been in the swarm for 1999000 seconds, more than the
  threshold of 86400, so it is a hit-and-run candidate. \<open>IsHNR\<close> returns false: it
  subtracts the current time from the first-announce timestamp, and the negative
  difference never exceeds the threshold.
\<close>

theorem IsHNR_leecher_over_threshold:
  "0 < Left sample_peer \<and>
   sint (HNRThreshold sample_config) < sint (2000000 :: 32 word) - sint (AnnounceFirst sample_peer) \<and>
   \<not> IsHNR sample_config 2000000 sample_peer"
  by (simp add: IsHNR_iff sample_peer_def sample_config_def)

section \<open>Properties of the compact peer list\<close>

lemma length_ip_bytes: "length (ip_bytes r) = (if r = None then 0 else 4)"
  by (cases r rule: ip_bytes.cases) simp_all

lemma length_makeCompactPeers_le:
  "length (makeCompactPeers to4 peers skip_id) \<le> 6 * length peers"
  by (induction peers) (simp_all add: length_ip_bytes)

text \<open>
  Where the stored address of every peer is an IPv4 address, each peer with a port other
  than zero and a peer id other than the requester's takes six bytes.
\<close>

lemma length_makeCompactPeers_ipv4:
  assumes "\<forall>peer \<in> set peers. to4 (IP peer) \<noteq> None"
  shows "length (makeCompactPeers to4 peers skip_id) =
           6 * length (filter (\<lambda>peer. Port peer \<noteq> 0 \<and> PeerID peer \<noteq> skip_id) peers)"
  using assms by (induction peers) (auto simp: length_ip_bytes)

text \<open>
  Claim C2, at a peer whose stored address is no IPv4 address. The peer's address is the
  text \<open><nil>\<close> and its port is 6881. Whatever the library's parsers do on other texts,
  this one has neither a dot nor a colon, so the address part is empty and the peer
  contributes its two port bytes alone: the result has length 2, which is no multiple of 6.
\<close>

theorem makeCompactPeers_nil_ip:
  "makeCompactPeers (ParseIP_To4 parse) [nil_ip_peer] [] = [0x1a, 0xe1] \<and>
   length (makeCompactPeers (ParseIP_To4 parse) [nil_ip_peer] []) mod 6 = 2"
  by (simp add: nil_ip_peer_def sample_peer_def ParseIP_To4_def)

section \<open>Properties of GetPeers\<close>

lemma length_receive_step:
  "length peers \<le> length (receive_step receive unixtime i peers) \<and>
   length (receive_step receive unixtime i peers) \<le> Suc (length peers)"
  by (simp add: receive_step_def split: received.split prod.split option.split)

lemma length_receive_loop:
  "length peers \<le> length (receive_loop receive unixtime i known_peers peers) \<and>
   length (receive_loop receive unixtime i known_peers peers)
     \<le> length peers + (Suc known_peers - i)"
proof (induction receive unixtime i known_peers peers rule: receive_loop.induct)
  case (1 receive unixtime i known_peers peers)
  show ?case
  proof (cases "i \<le> known_peers")
    case True
    let ?next = "receive_step receive unixtime i peers"
    have unfold: "receive_loop receive unixtime i known_peers peers =
                    receive_loop receive unixtime (i + 1) known_peers ?next"
      using True by (subst receive_loop.simps) simp
    have step: "length peers \<le> length ?next" "length ?next \<le> Suc (length peers)"
      using length_receive_step [of peers receive unixtime i] by simp_all
    have rest: "length ?next \<le> length (receive_loop receive unixtime (i + 1) known_peers ?next)"
      "length (receive_loop receive unixtime (i + 1) known_peers ?next)
         \<le> length ?next + (Suc known_peers - (i + 1))"
      using "1.IH" [OF True] by simp_all
    from step rest True show ?thesis
      unfolding unfold by arith
  next
    case False
    then show ?thesis
      by (subst (1 2) receive_loop.simps) simp
  qed
qed

text \<open>
  The length of the list that the code returns lies between the number of peer ids it asks
  for and twice that number.
\<close>

lemma GetPeers_length:
  assumes "GetPeers (Strings peer_ids) receive unixtime max_peers = Inr peers"
    and "0 \<le> max_peers"
  shows "min (length peer_ids) (nat max_peers) \<le> length peers \<and>
         length peers \<le> 2 * min (length peer_ids) (nat max_peers)"
proof -
  define known where "known = min (length peer_ids) (nat max_peers)"
  from assms have "peers = receive_loop receive unixtime 1 known (replicate known zeroPeer)"
    by (auto simp: GetPeers_def Let_def known_def min_def split: if_splits)
  with length_receive_loop [of "replicate known zeroPeer" receive unixtime 1 known]
  show ?thesis
    by (simp add: known_def)
qed

text \<open>
  Claim C6, at one stored peer. The torrent has one peer id, the limit \<open>max_peers\<close> is 1
  and Redis answers with the peer's hash. The code allocates the slice with one zero-valued
  peer already in it and appends the peer it reads, so it returns two peers: the empty one
  with port 0, and the stored one.
\<close>

theorem GetPeers_one_peer:
  "GetPeers (Strings [''-UT3550-abcdefghijkl'']) sample_receive 1000 1 =
     Inr [zeroPeer,
          \<lparr>sp_SpeedUP = 0, sp_SpeedDN = 0, sp_Uploaded = 0, sp_Downloaded = 0,
           sp_Corrupt = 0, sp_IP = ''10.0.0.5'', sp_Port = 6881, sp_Left = 1000,
           sp_Announces = 1, sp_TotalTime = 0, sp_AnnounceLast = 1000,
           sp_AnnounceFirst = 1000, sp_New = False, sp_Active = False, sp_UserID = 0\<rparr>]"
  by code_simp

section \<open>Properties of the metrics snapshot\<close>

lemma avgExecTime_counters:
  "AnnounceTotal (snd (avgExecTime st)) = AnnounceTotal st"
  "AnnounceStatusOK (snd (avgExecTime st)) = AnnounceStatusOK st"
  "AnnounceStatusUnauthorized (snd (avgExecTime st)) = AnnounceStatusUnauthorized st"
  "AnnounceStatusInvalidInfoHash (snd (avgExecTime st)) = AnnounceStatusInvalidInfoHash st"
  "AnnounceStatusMalformed (snd (avgExecTime st)) = AnnounceStatusMalformed st"
  "TorrentsTotalCached (snd (avgExecTime st)) = TorrentsTotalCached st"
  "PeersTotalCached (snd (avgExecTime st)) = PeersTotalCached st"
  "UsersTotalCached (snd (avgExecTime st)) = UsersTotalCached st"
  by (simp_all add: avgExecTime_def Let_def)

lemma Get_snapshot:
  "m_AnnounceTotal (fst (Get runtime st)) = AnnounceTotal st"
  "m_AnnounceStatusOK (fst (Get runtime st)) = AnnounceStatusOK st"
  "m_AnnounceStatusUnauthorized (fst (Get runtime st)) = AnnounceStatusUnauthorized st"
  "m_AnnounceStatusInvalidInfoHash (fst (Get runtime st)) = AnnounceStatusInvalidInfoHash st"
  "m_AnnounceStatusMalformed (fst (Get runtime st)) = AnnounceStatusMalformed st"
  by (simp_all add: Get_def Let_def case_prod_beta)

lemma Get_state:
  "AnnounceTotal (snd (Get runtime st)) = 0"
  "AnnounceStatusOK (snd (Get runtime st)) = 0"
  "AnnounceStatusUnauthorized (snd (Get runtime st)) = 0"
  "AnnounceStatusInvalidInfoHash (snd (Get runtime st)) = 0"
  "AnnounceStatusMalformed (snd (Get runtime st)) = 0"
  "TorrentsTotalCached (snd (Get runtime st)) = TorrentsTotalCached st"
  "PeersTotalCached (snd (Get runtime st)) = PeersTotalCached st"
  "UsersTotalCached (snd (Get runtime st)) = UsersTotalCached st"
  using avgExecTime_counters
    [of "st\<lparr>AnnounceTotal := 0, AnnounceStatusOK := 0, AnnounceStatusUnauthorized := 0,
           AnnounceStatusInvalidInfoHash := 0, AnnounceStatusMalformed := 0\<rparr>"]
  by (simp_all add: Get_def Let_def case_prod_beta)

text \<open>
  Claim C5 as stated fails: with seven announces counted, the first read reports 7 for
  \<open>ann_total\<close> and leaves the counter at zero, and a second read right after it reports 0.
\<close>

theorem Get_resets_AnnounceTotal:
  "AnnounceTotal sample_metrics = 7 \<and>
   m_AnnounceTotal (fst (Get () sample_metrics)) = 7 \<and>
   AnnounceTotal (snd (Get () sample_metrics)) = 0 \<and>
   m_AnnounceTotal (fst (Get () (snd (Get () sample_metrics)))) = 0"
  by (simp add: Get_snapshot Get_state) (simp add: sample_metrics_def)

text \<open>
  Claim C5, amended. Reading the snapshot resets every announce counter, \<open>ann_total\<close>
  included: the snapshot reports the value that each of the five counters has at the read,
  the read leaves all five at zero, so that a second read right after the first reports
  zero for each of them, and it leaves the three cache counters as they are.
\<close>

theorem Get_resets_all_announce_counters:
  "m_AnnounceTotal (fst (Get runtime st)) = AnnounceTotal st \<and>
   m_AnnounceStatusOK (fst (Get runtime st)) = AnnounceStatusOK st \<and>
   m_AnnounceStatusUnauthorized (fst (Get runtime st)) = AnnounceStatusUnauthorized st \<and>
   m_AnnounceStatusInvalidInfoHash (fst (Get runtime st)) = AnnounceStatusInvalidInfoHash st \<and>
   m_AnnounceStatusMalformed (fst (Get runtime st)) = AnnounceStatusMalformed st \<and>
   AnnounceTotal (snd (Get runtime st)) = 0 \<and>
   AnnounceStatusOK (snd (Get runtime st)) = 0 \<and>
   AnnounceStatusUnauthorized (snd (Get runtime st)) = 0 \<and>
   AnnounceStatusInvalidInfoHash (snd (Get runtime st)) = 0 \<and>
   AnnounceStatusMalformed (snd (Get runtime st)) = 0 \<and>
   m_AnnounceTotal (fst (Get runtime' (snd (Get runtime st)))) = 0 \<and>
   m_AnnounceStatusOK (fst (Get runtime' (snd (Get runtime st)))) = 0 \<and>
   m_AnnounceStatusUnauthorized (fst (Get runtime' (snd (Get runtime st)))) = 0 \<and>
   m_AnnounceStatusInvalidInfoHash (fst (Get runtime' (snd (Get runtime st)))) = 0 \<and>
   m_AnnounceStatusMalformed (fst (Get runtime' (snd (Get runtime st)))) = 0 \<and>
   TorrentsTotalCached (snd (Get runtime st)) = TorrentsTotalCached st \<and>
   PeersTotalCached (snd (Get runtime st)) = PeersTotalCached st \<and>
   UsersTotalCached (snd (Get runtime st)) = UsersTotalCached st"
  by (simp add: Get_snapshot Get_state)

end
